theory Spec2Isabelle
  imports Complex_Main "HOL-Library.AList"
begin

section \<open>Strings\<close>

text \<open>
  A Python \<open>str\<close> is a sequence of Unicode code points, so it is modelled as a list of
  natural numbers: \<open>len\<close> is \<open>length\<close>, slicing is \<open>take\<close> and \<open>drop\<close>. ASCII literals
  are written \<open>ascii ''date''\<close>; other literals of the source are given by their code points.
\<close>

type_synonym pystr = "nat list"

definition ascii :: "string \<Rightarrow> pystr" where
  "ascii cs = map of_char cs"

text \<open>
  The decimal digits of Unicode 14 (category Nd, the table of CPython 3.11): 66 runs of ten
  consecutive code points, each run starting at its digit zero. The ASCII run is tested first.
  Both \<open>\d\<close> of the \<open>re\<close> module and \<open>int\<close>/\<open>float\<close> accept every one of them.
\<close>

definition decimal_zeros :: "nat list" where
  "decimal_zeros = [1632, 1776, 1984, 2406, 2534, 2662, 2790, 2918, 3046, 3174, 3302,
     3430, 3558, 3664, 3792, 3872, 4160, 4240, 6112, 6160, 6470, 6608, 6784, 6800, 6992,
     7088, 7232, 7248, 42528, 43216, 43264, 43472, 43504, 43600, 44016, 65296, 66720,
     68912, 69734, 69872, 69942, 70096, 70384, 70736, 70864, 71248, 71360, 71472, 71904,
     72016, 72784, 73040, 73120, 92768, 92864, 93008, 120782, 120792, 120802, 120812,
     120822, 123200, 123632, 125264, 130032]"

fun zero_of :: "nat list \<Rightarrow> nat \<Rightarrow> nat option" where
  "zero_of [] c = None"
| "zero_of (z # zs) c = (if z \<le> c \<and> c < z + 10 then Some z else zero_of zs c)"

definition decimal_value :: "nat \<Rightarrow> nat option" where
  "decimal_value c =
     (if c < 128 then (if 48 \<le> c \<and> c \<le> 57 then Some (c - 48) else None)
      else (case zero_of decimal_zeros c of None \<Rightarrow> None | Some z \<Rightarrow> Some (c - z)))"

definition is_decimal :: "nat \<Rightarrow> bool" where
  "is_decimal c = (decimal_value c \<noteq> None)"

text \<open>The code points for which \<open>str.isspace\<close> holds; \<open>str.strip\<close> and \<open>\s\<close> use the same set.\<close>

definition is_space :: "nat \<Rightarrow> bool" where
  "is_space c = (c \<in> set [9, 10, 11, 12, 13, 28, 29, 30, 31, 32, 133, 160, 5760, 8192, 8193,
     8194, 8195, 8196, 8197, 8198, 8199, 8200, 8201, 8202, 8232, 8233, 8239, 8287, 12288])"

definition lstrip :: "pystr \<Rightarrow> pystr" where
  "lstrip s = dropWhile is_space s"

definition strip :: "pystr \<Rightarrow> pystr" where
  "strip s = rev (dropWhile is_space (rev (dropWhile is_space s)))"

text \<open>
  \<open>str.lower\<close>, one code point at a time. ASCII capitals are lowered; U+212A (Kelvin sign)
  lowers to \<open>k\<close> and U+0130 to \<open>i\<close> followed by U+0307. These are all the code points whose
  lower case contains an ASCII letter. Every other code point is left as it is: the lower
  case of such a code point is a single code point outside ASCII and outside the keyword
  tables of this program, so the substring tests of the extractors are not affected.
\<close>

definition lower_cp :: "nat \<Rightarrow> pystr" where
  "lower_cp c = (if 65 \<le> c \<and> c \<le> 90 then [c + 32]
                 else if c = 8490 then [107]
                 else if c = 304 then [105, 775]
                 else [c])"

fun lower :: "pystr \<Rightarrow> pystr" where
  "lower [] = []"
| "lower (c # cs) = lower_cp c @ lower cs"

text \<open>\<open>needle in hay\<close> for strings.\<close>

fun is_prefix :: "pystr \<Rightarrow> pystr \<Rightarrow> bool" where
  "is_prefix [] s = True"
| "is_prefix (p # ps) [] = False"
| "is_prefix (p # ps) (c # cs) = (p = c \<and> is_prefix ps cs)"

fun contains :: "pystr \<Rightarrow> pystr \<Rightarrow> bool" where
  "contains needle [] = (needle = [])"
| "contains needle (c # cs) = (is_prefix needle (c # cs) \<or> contains needle cs)"

text \<open>Decimal digits of a natural number, and the two-digit zero padding of \<open>%m\<close> and \<open>%d\<close>.\<close>

fun dec :: "nat \<Rightarrow> pystr" where
  "dec n = (if n < 10 then [48 + n] else dec (n div 10) @ [48 + n mod 10])"

declare dec.simps [simp del]

fun zpad :: "nat \<Rightarrow> pystr \<Rightarrow> pystr" where
  "zpad w s = (if length s < w then replicate (w - length s) 48 @ s else s)"

text \<open>
  \<open>int\<close> on a run of decimal digits, as captured by \<open>\d\<close>. The argument is never empty
  and never holds anything but digits where the program calls it.
\<close>

fun int_of_digits_acc :: "nat \<Rightarrow> pystr \<Rightarrow> nat" where
  "int_of_digits_acc a [] = a"
| "int_of_digits_acc a (c # cs) =
     int_of_digits_acc (10 * a + (case decimal_value c of None \<Rightarrow> 0 | Some d \<Rightarrow> d)) cs"

definition int_of_digits :: "pystr \<Rightarrow> nat" where
  "int_of_digits s = int_of_digits_acc 0 s"

section \<open>Floating point numbers\<close>

text \<open>
  A Python \<open>float\<close> is a binary64 number. A finite one is modelled by the rational number
  it denotes, the three special values by constructors of their own. The sign of a zero is
  not kept: \<open>0.0\<close> and \<open>-0.0\<close> compare equal and are both false, and the program never
  tells them apart otherwise.
\<close>

datatype pyfloat = Fin rat | PInf | NInf | NaN

text \<open>
  Rounding a rational number to the nearest binary64 number, ties to even, as \<open>float\<close>
  does for a decimal string and for an \<open>int\<close>. An integer of at most 53 bits is its own
  value. Otherwise the binary exponent of the last place is \<open>e - 52\<close>, where \<open>2 ^ e\<close> is
  the largest power of two not above the number, and never below the subnormal \<open>-1074\<close>;
  a result of \<open>2 ^ 1024\<close> or more is an infinity.
\<close>

fun bitlen :: "nat \<Rightarrow> nat" where
  "bitlen n = (if n = 0 then 0 else Suc (bitlen (n div 2)))"

declare bitlen.simps [simp del]

definition round_half_even :: "int \<Rightarrow> int \<Rightarrow> int" where
  "round_half_even n d =
     (if 2 * (n mod d) < d then n div d
      else if d < 2 * (n mod d) then n div d + 1
      else if even (n div d) then n div d else n div d + 1)"

definition pow2 :: "int \<Rightarrow> rat" where
  "pow2 e = (if 0 \<le> e then 2 ^ nat e else 1 / 2 ^ nat (- e))"

definition pow10 :: "int \<Rightarrow> rat" where
  "pow10 e = (if 0 \<le> e then 10 ^ nat e else 1 / 10 ^ nat (- e))"

definition binary_exponent :: "int \<Rightarrow> int \<Rightarrow> int" where
  "binary_exponent n d =
     (if of_int n < pow2 (int (bitlen (nat n)) - int (bitlen (nat d))) * of_int d
      then int (bitlen (nat n)) - int (bitlen (nat d)) - 1
      else int (bitlen (nat n)) - int (bitlen (nat d)))"

definition round_to_grid :: "int \<Rightarrow> int \<Rightarrow> int \<Rightarrow> rat" where
  "round_to_grid n d x =
     of_int (if 0 \<le> x then round_half_even n (d * 2 ^ nat x)
             else round_half_even (n * 2 ^ nat (- x)) d) * pow2 x"

definition round_pos :: "int \<Rightarrow> int \<Rightarrow> rat" where
  "round_pos n d = round_to_grid n d (max (binary_exponent n d - 52) (- 1074))"

definition round_double :: "rat \<Rightarrow> pyfloat" where
  "round_double q =
     (case quotient_of q of (n, d) \<Rightarrow>
        if d = 1 \<and> \<bar>n\<bar> \<le> 2 ^ 53 then Fin q
        else if pow2 1024 \<le> round_pos \<bar>n\<bar> d then (if 0 < n then PInf else NInf)
        else Fin (if 0 < n then round_pos \<bar>n\<bar> d else - round_pos \<bar>n\<bar> d))"

text \<open>
  \<open>float(s)\<close> for a string, as CPython does it: Unicode digits and spaces are first mapped
  to ASCII, ASCII white space is stripped from both ends, an underscore is accepted only
  between two digits, and what is left must be a signed \<open>inf\<close>, \<open>infinity\<close>, \<open>nan\<close> or
  decimal number with an optional exponent. \<open>None\<close> stands for \<open>ValueError\<close>.
\<close>

definition is_ascii_digit :: "nat \<Rightarrow> bool" where
  "is_ascii_digit c = (48 \<le> c \<and> c \<le> 57)"

definition ascii_space :: "nat \<Rightarrow> bool" where
  "ascii_space c = (c = 32 \<or> (9 \<le> c \<and> c \<le> 13))"

fun to_ascii_number :: "pystr \<Rightarrow> pystr option" where
  "to_ascii_number [] = Some []"
| "to_ascii_number (c # cs) =
     (if c < 127 then map_option (Cons c) (to_ascii_number cs)
      else if is_space c then map_option (Cons 32) (to_ascii_number cs)
      else (case decimal_value c of
              None \<Rightarrow> None
            | Some d \<Rightarrow> map_option (Cons (48 + d)) (to_ascii_number cs)))"

definition strip_ascii :: "pystr \<Rightarrow> pystr" where
  "strip_ascii s = rev (dropWhile ascii_space (rev (dropWhile ascii_space s)))"

fun drop_underscores :: "nat \<Rightarrow> pystr \<Rightarrow> pystr option" where
  "drop_underscores prev [] = (if prev = 95 then None else Some [])"
| "drop_underscores prev (c # cs) =
     (if c = 95 then (if is_ascii_digit prev then drop_underscores c cs else None)
      else if prev = 95 \<and> \<not> is_ascii_digit c then None
      else map_option (Cons c) (drop_underscores c cs))"

fun all_digits :: "pystr \<Rightarrow> bool" where
  "all_digits [] = True"
| "all_digits (c # cs) = (is_ascii_digit c \<and> all_digits cs)"

fun exponent_digits :: "pystr \<Rightarrow> nat option" where
  "exponent_digits ds = (if ds \<noteq> [] \<and> all_digits ds then Some (int_of_digits ds) else None)"

fun parse_exponent :: "pystr \<Rightarrow> int option" where
  "parse_exponent [] = Some 0"
| "parse_exponent (c # r) =
     (if c = 101 \<or> c = 69 then
        (case r of
           [] \<Rightarrow> None
         | s # ds \<Rightarrow>
             if s = 45 then map_option (\<lambda>n. - int n) (exponent_digits ds)
             else if s = 43 then map_option int (exponent_digits ds)
             else map_option int (exponent_digits (s # ds)))
      else None)"

fun after_point :: "pystr \<Rightarrow> pystr \<times> pystr" where
  "after_point [] = ([], [])"
| "after_point (c # r) =
     (if c = 46 then (takeWhile is_ascii_digit r, dropWhile is_ascii_digit r) else ([], c # r))"

fun decimal_of_parts :: "pystr \<Rightarrow> pystr \<times> pystr \<Rightarrow> rat option" where
  "decimal_of_parts ip (fp, r) =
     (if ip = [] \<and> fp = [] then None
      else (case parse_exponent r of
              None \<Rightarrow> None
            | Some e \<Rightarrow> Some (of_nat (int_of_digits (ip @ fp)) * pow10 (e - int (length fp)))))"

definition parse_decimal :: "pystr \<Rightarrow> rat option" where
  "parse_decimal t =
     decimal_of_parts (takeWhile is_ascii_digit t) (after_point (dropWhile is_ascii_digit t))"

definition lower_ascii :: "pystr \<Rightarrow> pystr" where
  "lower_ascii s = map (\<lambda>c. if 65 \<le> c \<and> c \<le> 90 then c + 32 else c) s"

definition parse_unsigned :: "bool \<Rightarrow> pystr \<Rightarrow> pyfloat option" where
  "parse_unsigned neg t =
     (if lower_ascii t = ascii ''inf'' \<or> lower_ascii t = ascii ''infinity''
        then Some (if neg then NInf else PInf)
      else if lower_ascii t = ascii ''nan'' then Some NaN
      else (case parse_decimal t of
              None \<Rightarrow> None
            | Some q \<Rightarrow> Some (round_double (if neg then - q else q))))"

fun parse_signed :: "pystr \<Rightarrow> pyfloat option" where
  "parse_signed [] = None"
| "parse_signed (c # t) =
     (if c = 45 then parse_unsigned True t
      else if c = 43 then parse_unsigned False t
      else parse_unsigned False (c # t))"

definition float_of_str :: "pystr \<Rightarrow> pyfloat option" where
  "float_of_str s =
     (case to_ascii_number s of
        None \<Rightarrow> None
      | Some a \<Rightarrow> (case drop_underscores 0 (strip_ascii a) of
                     None \<Rightarrow> None
                   | Some t \<Rightarrow> parse_signed t))"

section \<open>Regular expressions\<close>

text \<open>
  The fragment of the \<open>re\<close> module that the program uses. A character class is \<open>\d\<close>,
  \<open>\s\<close>, the dot, a literal (\<open>CLitI\<close>: under \<open>re.IGNORECASE\<close>), a range, or a bracket expression.
  Under \<open>re.IGNORECASE\<close> an ASCII letter of a pattern also matches its capital, and \<open>i\<close>,
  \<open>k\<close> and \<open>s\<close> match U+0130 and U+0131, U+212A, and U+017F as well.
\<close>

datatype cclass = CDigit | CSpace | CAny | CLit nat | CLitI nat | CRange nat nat
  | COneOf "cclass list" | CNoneOf "cclass list"

definition ci_variants :: "nat \<Rightarrow> nat list" where
  "ci_variants x = (if 97 \<le> x \<and> x \<le> 122 then
       [x, x - 32] @ (if x = 105 then [304, 305] else if x = 107 then [8490]
                      else if x = 115 then [383] else [])
     else [x])"

fun cmatch :: "cclass \<Rightarrow> nat \<Rightarrow> bool" where
  "cmatch CDigit c = is_decimal c"
| "cmatch CSpace c = is_space c"
| "cmatch CAny c = (c \<noteq> 10)"
| "cmatch (CLit x) c = (c = x)"
| "cmatch (CLitI x) c = (c \<in> set (ci_variants x))"
| "cmatch (CRange lo hi) c = (lo \<le> c \<and> c \<le> hi)"
| "cmatch (COneOf ks) c = (\<exists>k \<in> set ks. cmatch k c)"
| "cmatch (CNoneOf ks) c = (\<not> (\<exists>k \<in> set ks. cmatch k c))"

text \<open>
  A pattern. \<open>Rep k lo hi\<close> is the greedy repetition \<open>k{lo,hi}\<close> of a character class
  (\<open>hi = None\<close> for no upper bound: \<open>k+\<close> is \<open>Rep k 1 None\<close>), \<open>Opt\<close> is the greedy \<open>?\<close>,
  \<open>Grp\<close> a capturing group. No pattern of the program nests one capturing group in another
  or repeats one.
\<close>

datatype rx = Eps | Chr cclass | Rep cclass nat "nat option"
  | Seq rx rx | Alt rx rx | Opt rx | Grp rx

text \<open>
  The backtracking matcher, anchored at the start of its subject. It works through a stack
  of pending patterns; \<open>Close s0\<close> ends a group that was opened when \<open>s0\<close> was left of the
  subject, and records what was consumed since. Alternatives are tried in the order of the
  pattern and a repetition gives characters back one at a time, so the first success is the
  match the \<open>re\<close> module reports. The result is the unread rest and the groups.
\<close>

datatype frame = Todo rx | Close pystr

fun rx_size :: "rx \<Rightarrow> nat" where
  "rx_size (Seq a b) = Suc (rx_size a + rx_size b)"
| "rx_size (Alt a b) = Suc (rx_size a + rx_size b)"
| "rx_size (Opt a) = Suc (rx_size a)"
| "rx_size (Grp a) = Suc (Suc (rx_size a))"
| "rx_size _ = 1"

fun frame_size :: "frame \<Rightarrow> nat" where
  "frame_size (Todo r) = rx_size r"
| "frame_size (Close _) = 1"

fun dec_hi :: "nat option \<Rightarrow> nat option" where
  "dec_hi None = None"
| "dec_hi (Some h) = Some (h - 1)"

function (sequential) rx_run :: "frame list \<Rightarrow> pystr \<Rightarrow> pystr list \<Rightarrow> (pystr \<times> pystr list) option" where
  "rx_run [] s caps = Some (s, caps)"
| "rx_run (Close s0 # k) s caps = rx_run k s (caps @ [take (length s0 - length s) s0])"
| "rx_run (Todo Eps # k) s caps = rx_run k s caps"
| "rx_run (Todo (Chr c) # k) [] caps = None"
| "rx_run (Todo (Chr c) # k) (x # xs) caps = (if cmatch c x then rx_run k xs caps else None)"
| "rx_run (Todo (Seq a b) # k) s caps = rx_run (Todo a # Todo b # k) s caps"
| "rx_run (Todo (Alt a b) # k) s caps =
     (case rx_run (Todo a # k) s caps of Some r \<Rightarrow> Some r | None \<Rightarrow> rx_run (Todo b # k) s caps)"
| "rx_run (Todo (Opt a) # k) s caps =
     (case rx_run (Todo a # k) s caps of Some r \<Rightarrow> Some r | None \<Rightarrow> rx_run k s caps)"
| "rx_run (Todo (Grp a) # k) s caps = rx_run (Todo a # Close s # k) s caps"
| "rx_run (Todo (Rep c lo hi) # k) [] caps = (if lo = 0 then rx_run k [] caps else None)"
| "rx_run (Todo (Rep c lo hi) # k) (x # xs) caps =
     (if hi \<noteq> Some 0 \<and> cmatch c x then
        (case rx_run (Todo (Rep c (lo - 1) (dec_hi hi)) # k) xs caps of
           Some r \<Rightarrow> Some r
         | None \<Rightarrow> if lo = 0 then rx_run k (x # xs) caps else None)
      else if lo = 0 then rx_run k (x # xs) caps else None)"
  by pat_completeness auto
termination
  by (relation "measures [\<lambda>(k, s, caps). length s, \<lambda>(k, s, caps). sum_list (map frame_size k)]") auto

definition seqs :: "rx list \<Rightarrow> rx" where
  "seqs ps = foldr Seq ps Eps"

text \<open>
  \<open>re.search\<close>: the match at the leftmost position that has one. The result is the matched
  text (\<open>group(0)\<close>), the subject after the match (\<open>text[match.end():]\<close>) and the groups.
\<close>

fun re_search :: "rx \<Rightarrow> pystr \<Rightarrow> (pystr \<times> pystr \<times> pystr list) option" where
  "re_search p [] = (case rx_run [Todo p] [] [] of None \<Rightarrow> None | Some (r, g) \<Rightarrow> Some ([], r, g))"
| "re_search p (c # s) = (case rx_run [Todo p] (c # s) [] of
       None \<Rightarrow> re_search p s
     | Some (r, g) \<Rightarrow> Some (take (Suc (length s) - length r) (c # s), r, g))"

definition alts :: "rx list \<Rightarrow> rx" where
  "alts ps = foldr Alt (butlast ps) (last ps)"

definition word :: "pystr \<Rightarrow> rx" where
  "word w = seqs (map (\<lambda>c. Chr (CLit c)) w)"

definition wordI :: "pystr \<Rightarrow> rx" where
  "wordI w = seqs (map (\<lambda>c. Chr (CLitI c)) w)"

section \<open>Cell and field values\<close>

text \<open>
  The values a worksheet cell, a table cell or a row field can hold: \<open>None\<close>, \<open>bool\<close>,
  \<open>int\<close>, \<open>float\<close>, \<open>str\<close>, \<open>datetime.date\<close> (year, month, day) and a naive
  \<open>datetime.datetime\<close> (with hour, minute, second, microsecond). Date values are taken to
  be well formed, as Python's constructors guarantee.
\<close>

datatype pyval = PNone | PBool bool | PInt int | PFloat pyfloat | PStr pystr
  | PDate nat nat nat | PDateTime nat nat nat nat nat nat nat

datatype pyerr = TypeError | ValueError | OverflowError | AttributeError

text \<open>Truth value testing: what \<open>if value\<close> and \<open>not value\<close> look at.\<close>

fun truthy :: "pyval \<Rightarrow> bool" where
  "truthy PNone = False"
| "truthy (PBool b) = b"
| "truthy (PInt i) = (i \<noteq> 0)"
| "truthy (PFloat f) = (f \<noteq> Fin 0)"
| "truthy (PStr s) = (s \<noteq> [])"
| "truthy (PDate y m d) = True"
| "truthy (PDateTime y m d h mi s us) = True"

text \<open>
  \<open>float(value)\<close>. An \<open>int\<close> too large for a binary64 number raises \<open>OverflowError\<close>,
  a string that is no number \<open>ValueError\<close>, \<open>None\<close> and dates \<open>TypeError\<close>.
\<close>

fun float_of_rounded :: "pyfloat \<Rightarrow> pyerr + pyfloat" where
  "float_of_rounded PInf = Inl OverflowError"
| "float_of_rounded NInf = Inl OverflowError"
| "float_of_rounded f = Inr f"

fun py_float :: "pyval \<Rightarrow> pyerr + pyfloat" where
  "py_float PNone = Inl TypeError"
| "py_float (PBool b) = Inr (Fin (if b then 1 else 0))"
| "py_float (PInt i) = float_of_rounded (round_double (of_int i))"
| "py_float (PFloat f) = Inr f"
| "py_float (PStr s) = (case float_of_str s of None \<Rightarrow> Inl ValueError | Some f \<Rightarrow> Inr f)"
| "py_float (PDate y m d) = Inl TypeError"
| "py_float (PDateTime y m d h mi s us) = Inl TypeError"

text \<open>The comparison \<open>a < b\<close> of two floats; every comparison with a NaN is false.\<close>

fun float_less :: "pyfloat \<Rightarrow> pyfloat \<Rightarrow> bool" where
  "float_less (Fin a) (Fin b) = (a < b)"
| "float_less (Fin a) PInf = True"
| "float_less NInf (Fin b) = True"
| "float_less NInf PInf = True"
| "float_less _ _ = False"

text \<open>
  \<open>str(value)\<close>, which an f-string uses as well. The shortest-round-trip text of a float is
  the work of the Python runtime and is not modelled: it is the parameter \<open>float_repr\<close> of
  every function that may print a float.
\<close>

definition isoformat_date :: "nat \<Rightarrow> nat \<Rightarrow> nat \<Rightarrow> pystr" where
  "isoformat_date y m d = zpad 4 (dec y) @ [45] @ zpad 2 (dec m) @ [45] @ zpad 2 (dec d)"

definition isoformat_time :: "nat \<Rightarrow> nat \<Rightarrow> nat \<Rightarrow> nat \<Rightarrow> pystr" where
  "isoformat_time h mi s us =
     zpad 2 (dec h) @ [58] @ zpad 2 (dec mi) @ [58] @ zpad 2 (dec s)
       @ (if us = 0 then [] else [46] @ zpad 6 (dec us))"

fun py_str :: "(pyfloat \<Rightarrow> pystr) \<Rightarrow> pyval \<Rightarrow> pystr" where
  "py_str float_repr PNone = ascii ''None''"
| "py_str float_repr (PBool b) = (if b then ascii ''True'' else ascii ''False'')"
| "py_str float_repr (PInt i) = (if i < 0 then [45] @ dec (nat (- i)) else dec (nat i))"
| "py_str float_repr (PFloat f) = float_repr f"
| "py_str float_repr (PStr s) = s"
| "py_str float_repr (PDate y m d) = isoformat_date y m d"
| "py_str float_repr (PDateTime y m d h mi s us) =
     isoformat_date y m d @ [32] @ isoformat_time h mi s us"

fun opt_str :: "pystr option \<Rightarrow> pyval" where
  "opt_str None = PNone"
| "opt_str (Some s) = PStr s"

fun opt_float :: "pyfloat option \<Rightarrow> pyval" where
  "opt_float None = PNone"
| "opt_float (Some f) = PFloat f"

section \<open>Calendar dates\<close>

text \<open>\<open>datetime.date(year, month, day)\<close> raises \<open>ValueError\<close> unless the date exists.\<close>

definition is_leap :: "nat \<Rightarrow> bool" where
  "is_leap y = (y mod 4 = 0 \<and> (y mod 100 \<noteq> 0 \<or> y mod 400 = 0))"

definition days_in_month :: "nat \<Rightarrow> nat \<Rightarrow> nat" where
  "days_in_month y m =
     (if m = 2 then (if is_leap y then 29 else 28)
      else if m = 4 \<or> m = 6 \<or> m = 9 \<or> m = 11 then 30 else 31)"

definition valid_date :: "nat \<Rightarrow> nat \<Rightarrow> nat \<Rightarrow> bool" where
  "valid_date y m d = (1 \<le> y \<and> y \<le> 9999 \<and> 1 \<le> m \<and> m \<le> 12 \<and> 1 \<le> d \<and> d \<le> days_in_month y m)"

text \<open>
  \<open>strftime('%Y-%m-%d')\<close>: month and day are padded to two digits. The year is printed by
  the C library; with glibc, which CPython 3.11 on Linux uses, a year below 1000 is not
  padded.
\<close>

definition strftime_ymd :: "nat \<Rightarrow> nat \<Rightarrow> nat \<Rightarrow> pystr" where
  "strftime_ymd y m d = dec y @ [45] @ zpad 2 (dec m) @ [45] @ zpad 2 (dec d)"

section \<open>The date parser of the two extractors\<close>

text \<open>
  The three patterns of \<open>ExcelParser._parse_date\<close> and of \<open>PDFParser.PATTERNS['date']\<close>, which
  are the same list: \<open>(\d{4})[/-](\d{1,2})[/-](\d{1,2})\<close>, \<open>(\d{1,2})[/-](\d{1,2})[/-](\d{4})\<close>
  and \<open>(\d{4})Y(\d{1,2})M(\d{1,2})D\<close>, where Y, M and D stand for the characters U+5E74,
  U+6708 and U+65E5.
\<close>

definition digits :: "nat \<Rightarrow> nat \<Rightarrow> rx" where
  "digits lo hi = Grp (Rep CDigit lo (Some hi))"

definition sep :: rx where
  "sep = Chr (COneOf [CLit 47, CLit 45])"

definition date_patterns :: "rx list" where
  "date_patterns =
     [seqs [digits 4 4, sep, digits 1 2, sep, digits 1 2],
      seqs [digits 1 2, sep, digits 1 2, sep, digits 4 4],
      seqs [digits 4 4, Chr (CLit 24180), digits 1 2, Chr (CLit 26376), digits 1 2,
            Chr (CLit 26085)]]"

text \<open>
  The body of the loop once a pattern has matched: the groups are read as year, month, day
  when the first has four digits and as month, day, year otherwise; \<open>None\<close> stands for the
  \<open>ValueError\<close> of \<open>date(...)\<close>, after which the loop goes on to the next pattern.
\<close>

definition make_date :: "pystr \<Rightarrow> pystr \<Rightarrow> pystr \<Rightarrow> pystr option" where
  "make_date year month day =
     (if valid_date (int_of_digits year) (int_of_digits month) (int_of_digits day)
      then Some (strftime_ymd (int_of_digits year) (int_of_digits month) (int_of_digits day))
      else None)"

fun date_of_groups :: "pystr list \<Rightarrow> pystr option" where
  "date_of_groups [g1, g2, g3] =
     (if length g1 = 4 then make_date g1 g2 g3 else make_date g3 g1 g2)"
| "date_of_groups _ = None"

definition try_date_pattern :: "rx \<Rightarrow> pystr \<Rightarrow> pystr option" where
  "try_date_pattern p text =
     (case re_search p text of
        None \<Rightarrow> None
      | Some (m, rest, groups) \<Rightarrow> date_of_groups groups)"

fun extract_date_from :: "rx list \<Rightarrow> pystr \<Rightarrow> pystr option" where
  "extract_date_from [] text = None"
| "extract_date_from (p # ps) text =
     (case try_date_pattern p text of
        None \<Rightarrow> extract_date_from ps text
      | Some d \<Rightarrow> Some d)"

definition PDFParser_extract_date :: "pystr \<Rightarrow> pystr option" where
  "PDFParser_extract_date text = extract_date_from date_patterns text"

fun ExcelParser_parse_date :: "pyval \<Rightarrow> pystr option" where
  "ExcelParser_parse_date v =
     (if \<not> truthy v then None
      else (case v of
              PDate y m d \<Rightarrow> Some (strftime_ymd y m d)
            | PDateTime y m d h mi s us \<Rightarrow> Some (strftime_ymd y m d)
            | PStr s \<Rightarrow> extract_date_from date_patterns s
            | _ \<Rightarrow> None))"

section \<open>Rows\<close>

text \<open>
  A row is a Python \<open>dict\<close> from field names to values, modelled as an association list:
  \<open>row.get(k)\<close> is \<open>dict_get\<close>, \<open>k in row\<close> is \<open>map_of row k \<noteq> None\<close>, and \<open>row[k] = v\<close> is
  \<open>AList.update k v row\<close>, which keeps the position of a key that is already there.
\<close>

type_synonym pydict = "(pystr \<times> pyval) list"

definition dict_get :: "pydict \<Rightarrow> pystr \<Rightarrow> pyval" where
  "dict_get row k = (case map_of row k of None \<Rightarrow> PNone | Some v \<Rightarrow> v)"

definition dict_get_default :: "pydict \<Rightarrow> pystr \<Rightarrow> pyval \<Rightarrow> pyval" where
  "dict_get_default row k dflt = (case map_of row k of None \<Rightarrow> dflt | Some v \<Rightarrow> v)"

fun any_truthy :: "pyval list \<Rightarrow> bool" where
  "any_truthy [] = False"
| "any_truthy (v # vs) = (truthy v \<or> any_truthy vs)"

section \<open>The record validator (data\_validator.py)\<close>

datatype ValidationErrorType =
  MISSING_REQUIRED_FIELD | INVALID_FORMAT | INVALID_VALUE | OUT_OF_RANGE | EMPTY_DATA

record ValidationError =
  error_type :: ValidationErrorType
  field :: pystr
  message :: pystr
  row_index :: "nat option"
  val :: pyval

record ValidationResult =
  errors :: "ValidationError list"
  warnings :: "pystr list"

definition new_result :: ValidationResult where
  "new_result = \<lparr>errors = [], warnings = []\<rparr>"

definition add_error ::
  "ValidationErrorType \<Rightarrow> pystr \<Rightarrow> pystr \<Rightarrow> nat option \<Rightarrow> pyval \<Rightarrow> ValidationResult
   \<Rightarrow> ValidationResult" where
  "add_error t f msg idx v result =
     result\<lparr>errors := errors result
       @ [\<lparr>error_type = t, field = f, message = msg, row_index = idx, val = v\<rparr>]\<rparr>"

definition add_warning :: "pystr \<Rightarrow> ValidationResult \<Rightarrow> ValidationResult" where
  "add_warning msg result = result\<lparr>warnings := warnings result @ [msg]\<rparr>"

definition is_valid :: "ValidationResult \<Rightarrow> bool" where
  "is_valid result = (length (errors result) = 0)"

definition REQUIRED_FIELDS :: "(pystr \<times> pystr list) list" where
  "REQUIRED_FIELDS = [(ascii ''meal'', [ascii ''date'']), (ascii ''exercise'', [ascii ''date''])]"

definition RECOMMENDED_FIELDS :: "(pystr \<times> pystr list) list" where
  "RECOMMENDED_FIELDS =
     [(ascii ''meal'', [ascii ''meal_time'', ascii ''food'', ascii ''calories'']),
      (ascii ''exercise'', [ascii ''name'', ascii ''duration''])]"

text \<open>
  \<open>datetime.strptime\<close> for the four formats of \<open>_is_valid_date\<close>. The \<open>_strptime\<close> module
  turns \<open>%Y\<close> into \<open>(\d\d\d\d)\<close>, \<open>%m\<close> into \<open>(1[0-2]|0[1-9]|[1-9])\<close> and \<open>%d\<close> into
  \<open>(3[0-1]|[1-2]\d|0[1-9]|[1-9]| [1-9])\<close>, matches at the start of the string, rejects a
  match that does not reach the end of the string, and then builds the date.
\<close>

definition strptime_Y :: rx where
  "strptime_Y = Grp (Rep CDigit 4 (Some 4))"

definition strptime_m :: rx where
  "strptime_m = Grp (alts [Seq (Chr (CLit 49)) (Chr (CRange 48 50)),
                           Seq (Chr (CLit 48)) (Chr (CRange 49 57)),
                           Chr (CRange 49 57)])"

definition strptime_d :: rx where
  "strptime_d = Grp (alts [Seq (Chr (CLit 51)) (Chr (CRange 48 49)),
                           Seq (Chr (CRange 49 50)) (Chr CDigit),
                           Seq (Chr (CLit 48)) (Chr (CRange 49 57)),
                           Chr (CRange 49 57),
                           Seq (Chr (CLit 32)) (Chr (CRange 49 57))])"

fun strptime_groups_ok :: "bool \<Rightarrow> pystr list \<Rightarrow> bool" where
  "strptime_groups_ok year_first [a, b, c] =
     (if year_first
      then valid_date (int_of_digits a) (int_of_digits b) (int_of_digits (strip c))
      else valid_date (int_of_digits c) (int_of_digits b) (int_of_digits (strip a)))"
| "strptime_groups_ok year_first _ = False"

definition strptime_ok :: "rx \<Rightarrow> bool \<Rightarrow> pystr \<Rightarrow> bool" where
  "strptime_ok p year_first s =
     (case rx_run [Todo p] s [] of
        None \<Rightarrow> False
      | Some (rest, groups) \<Rightarrow> rest = [] \<and> strptime_groups_ok year_first groups)"

definition fmt_Ymd :: "nat \<Rightarrow> rx" where
  "fmt_Ymd c = seqs [strptime_Y, Chr (CLit c), strptime_m, Chr (CLit c), strptime_d]"

definition fmt_dmY :: "nat \<Rightarrow> rx" where
  "fmt_dmY c = seqs [strptime_d, Chr (CLit c), strptime_m, Chr (CLit c), strptime_Y]"

fun DataValidator_is_valid_date :: "pyval \<Rightarrow> bool" where
  "DataValidator_is_valid_date (PDate y m d) = True"
| "DataValidator_is_valid_date (PDateTime y m d h mi s us) = True"
| "DataValidator_is_valid_date (PStr s) =
     (strptime_ok (fmt_Ymd 45) True s \<or> strptime_ok (fmt_Ymd 47) True s
      \<or> strptime_ok (fmt_dmY 45) False s \<or> strptime_ok (fmt_dmY 47) False s)"
| "DataValidator_is_valid_date _ = False"

text \<open>
  \<open>_is_valid_number\<close> catches \<open>ValueError\<close> and \<open>TypeError\<close> only: the \<open>OverflowError\<close> of
  \<open>float\<close> on a huge \<open>int\<close> leaves the function, and the validation with it.
\<close>

fun in_range :: "pyfloat \<Rightarrow> rat option \<Rightarrow> rat option \<Rightarrow> bool" where
  "in_range num min_value max_value =
     (if min_value \<noteq> None \<and> float_less num (Fin (the min_value)) then False
      else if max_value \<noteq> None \<and> float_less (Fin (the max_value)) num then False
      else True)"

definition DataValidator_is_valid_number ::
  "pyval \<Rightarrow> rat option \<Rightarrow> rat option \<Rightarrow> pyerr + bool" where
  "DataValidator_is_valid_number v min_value max_value =
     (case py_float v of
        Inl e \<Rightarrow> (if e = ValueError \<or> e = TypeError then Inr False else Inl e)
      | Inr num \<Rightarrow> Inr (in_range num min_value max_value))"

fun DataValidator_is_valid_text :: "pyval \<Rightarrow> nat \<Rightarrow> bool" where
  "DataValidator_is_valid_text (PStr s) max_length = (length s \<le> max_length)"
| "DataValidator_is_valid_text _ max_length = False"

text \<open>The fixed parts of the messages, by code point.\<close>

definition msg_empty :: pystr where
  "msg_empty = [35299, 26512, 32467, 26524, 20026, 31354, 65292, 26410, 25214, 21040, 20219,
     20309, 26377, 25928, 25968, 25454]"

definition msg_missing_required :: pystr where
  "msg_missing_required = [32570, 23569, 24517, 38656, 23383, 27573, 58, 32]"

definition msg_row :: pystr where
  "msg_row = [34892, 32]"

definition msg_missing_recommended :: pystr where
  "msg_missing_recommended = [32, 32570, 23569, 25512, 33616, 23383, 27573, 58, 32]"

definition msg_invalid_date :: pystr where
  "msg_invalid_date = [26085, 26399, 26684, 24335, 26080, 25928, 58, 32]"

definition msg_invalid_calories :: pystr where
  "msg_invalid_calories = [28909, 37327, 20540, 26080, 25928, 25110, 36229, 20986, 33539, 22260]
     @ ascii '' (0-10000): ''"

definition msg_invalid_duration :: pystr where
  "msg_invalid_duration = [26102, 38271, 20540, 26080, 25928, 25110, 36229, 20986, 33539, 22260]
     @ ascii '' (0-1440'' @ [20998, 38047] @ ascii ''): ''"

definition msg_text_too_long :: pystr where
  "msg_text_too_long = [25991, 26412, 23383, 27573, 36807, 38271, 32, 40, 26368, 22823]
     @ ascii ''500'' @ [23383, 31526] @ ascii ''): ''"

definition msg_summary_prefix :: pystr where
  "msg_summary_prefix = [25104, 21151, 39564, 35777, 32]"

definition msg_summary_suffix :: pystr where
  "msg_summary_suffix = [32, 26465, 25968, 25454]"

text \<open>\<open>sep.join(parts)\<close>.\<close>

fun join :: "pystr \<Rightarrow> pystr list \<Rightarrow> pystr" where
  "join sp [] = []"
| "join sp [x] = x"
| "join sp (x # y # ys) = x @ sp @ join sp (y # ys)"

text \<open>The checks of \<open>_validate_row\<close>, in the order of the source.\<close>

fun required_loop :: "pydict \<Rightarrow> nat \<Rightarrow> pystr list \<Rightarrow> ValidationResult \<Rightarrow> ValidationResult" where
  "required_loop row idx [] result = result"
| "required_loop row idx (f # fs) result =
     required_loop row idx fs
       (if \<not> truthy (dict_get row f)
        then add_error MISSING_REQUIRED_FIELD f (msg_missing_required @ f) (Some idx) PNone result
        else result)"

definition check_required :: "pydict \<Rightarrow> nat \<Rightarrow> pystr \<Rightarrow> ValidationResult \<Rightarrow> ValidationResult" where
  "check_required row idx data_type result =
     (case map_of REQUIRED_FIELDS data_type of
        None \<Rightarrow> result
      | Some fs \<Rightarrow> required_loop row idx fs result)"

fun missing_recommended :: "pydict \<Rightarrow> pystr list \<Rightarrow> pystr list" where
  "missing_recommended row [] = []"
| "missing_recommended row (f # fs) =
     (if \<not> truthy (dict_get row f) then f # missing_recommended row fs
      else missing_recommended row fs)"

definition recommended_warning :: "nat \<Rightarrow> pystr list \<Rightarrow> pystr" where
  "recommended_warning idx missing =
     msg_row @ dec idx @ msg_missing_recommended @ join (ascii '', '') missing"

definition check_recommended :: "pydict \<Rightarrow> nat \<Rightarrow> pystr \<Rightarrow> ValidationResult \<Rightarrow> ValidationResult" where
  "check_recommended row idx data_type result =
     (case map_of RECOMMENDED_FIELDS data_type of
        None \<Rightarrow> result
      | Some fs \<Rightarrow>
          if missing_recommended row fs \<noteq> []
          then add_warning (recommended_warning idx (missing_recommended row fs)) result
          else result)"

definition check_date ::
  "(pyfloat \<Rightarrow> pystr) \<Rightarrow> pydict \<Rightarrow> nat \<Rightarrow> ValidationResult \<Rightarrow> ValidationResult" where
  "check_date float_repr row idx result =
     (case map_of row (ascii ''date'') of
        None \<Rightarrow> result
      | Some v \<Rightarrow>
          if truthy v \<and> \<not> DataValidator_is_valid_date v
          then add_error INVALID_FORMAT (ascii ''date'') (msg_invalid_date @ py_str float_repr v)
                 (Some idx) v result
          else result)"

definition check_number ::
  "(pyfloat \<Rightarrow> pystr) \<Rightarrow> pydict \<Rightarrow> nat \<Rightarrow> pystr \<Rightarrow> rat \<Rightarrow> pystr \<Rightarrow> ValidationResult
   \<Rightarrow> pyerr + ValidationResult" where
  "check_number float_repr row idx key max_value msg result =
     (case map_of row key of
        None \<Rightarrow> Inr result
      | Some v \<Rightarrow>
          if v = PNone then Inr result
          else (case DataValidator_is_valid_number v (Some 0) (Some max_value) of
                  Inl e \<Rightarrow> Inl e
                | Inr ok \<Rightarrow>
                    Inr (if \<not> ok
                         then add_error INVALID_VALUE key (msg @ py_str float_repr v) (Some idx) v
                                result
                         else result)))"

fun check_text_fields :: "pydict \<Rightarrow> nat \<Rightarrow> pystr list \<Rightarrow> ValidationResult \<Rightarrow> ValidationResult" where
  "check_text_fields row idx [] result = result"
| "check_text_fields row idx (f # fs) result =
     check_text_fields row idx fs
       (case map_of row f of
          None \<Rightarrow> result
        | Some v \<Rightarrow>
            if truthy v \<and> \<not> DataValidator_is_valid_text v 500
            then add_error INVALID_VALUE f (msg_text_too_long @ f) (Some idx) PNone result
            else result)"

definition text_fields :: "pystr list" where
  "text_fields = [ascii ''food'', ascii ''meal_time'', ascii ''exercise'', ascii ''name'',
                  ascii ''notes'']"

definition DataValidator_validate_row ::
  "(pyfloat \<Rightarrow> pystr) \<Rightarrow> pydict \<Rightarrow> nat \<Rightarrow> pystr \<Rightarrow> ValidationResult
   \<Rightarrow> pyerr + ValidationResult" where
  "DataValidator_validate_row float_repr row idx data_type result =
     (case check_number float_repr row idx (ascii ''calories'') 10000 msg_invalid_calories
             (check_date float_repr row idx
               (check_recommended row idx data_type
                 (check_required row idx data_type result))) of
        Inl e \<Rightarrow> Inl e
      | Inr r1 \<Rightarrow>
          (case check_number float_repr row idx (ascii ''duration'') 1440 msg_invalid_duration r1 of
             Inl e \<Rightarrow> Inl e
           | Inr r2 \<Rightarrow> Inr (check_text_fields row idx text_fields r2)))"

text \<open>The loop \<open>for idx, row in enumerate(data, start=1)\<close>.\<close>

fun validate_rows ::
  "(pyfloat \<Rightarrow> pystr) \<Rightarrow> pydict list \<Rightarrow> nat \<Rightarrow> pystr \<Rightarrow> ValidationResult
   \<Rightarrow> pyerr + ValidationResult" where
  "validate_rows float_repr [] idx data_type result = Inr result"
| "validate_rows float_repr (row # rest) idx data_type result =
     (case DataValidator_validate_row float_repr row idx data_type result of
        Inl e \<Rightarrow> Inl e
      | Inr r \<Rightarrow> validate_rows float_repr rest (Suc idx) data_type r)"

definition DataValidator_validate_parsed_data ::
  "(pyfloat \<Rightarrow> pystr) \<Rightarrow> pydict list \<Rightarrow> pystr \<Rightarrow> pyerr + ValidationResult" where
  "DataValidator_validate_parsed_data float_repr data data_type =
     (if data = [] then Inr (add_error EMPTY_DATA (ascii ''data'') msg_empty None PNone new_result)
      else (case validate_rows float_repr data 1 data_type new_result of
              Inl e \<Rightarrow> Inl e
            | Inr r \<Rightarrow>
                Inr (if is_valid r
                     then add_warning (msg_summary_prefix @ dec (length data) @ msg_summary_suffix) r
                     else r)))"









section \<open>The tabular extractor (excel\_parser.py)\<close>

text \<open>
  \<open>re.sub(r'[^\d.-]', '', value)\<close>: every character that the class matches is removed. In
  the bracket expression the dot and the final hyphen are literals.
\<close>

definition non_numeric :: cclass where
  "non_numeric = CNoneOf [CDigit, CLit 46, CLit 45]"

definition clean_number :: "pystr \<Rightarrow> pystr" where
  "clean_number s = filter (\<lambda>c. \<not> cmatch non_numeric c) s"

text \<open>
  \<open>_parse_number\<close>. \<open>bool\<close> is a subclass of \<open>int\<close>, so \<open>True\<close> is a native number. The
  \<open>OverflowError\<close> of \<open>float\<close> on a huge \<open>int\<close> is not caught here.
\<close>

fun ExcelParser_parse_number :: "pyval \<Rightarrow> pyerr + pyfloat option" where
  "ExcelParser_parse_number v =
     (if \<not> truthy v then Inr None
      else (case v of
              PBool b \<Rightarrow> map_sum id Some (py_float v)
            | PInt i \<Rightarrow> map_sum id Some (py_float v)
            | PFloat f \<Rightarrow> map_sum id Some (py_float v)
            | PStr s \<Rightarrow> Inr (float_of_str (clean_number s))
            | _ \<Rightarrow> Inr None))"

text \<open>
  The rule of the specification for dates, word for word: the patterns are tried in order,
  and the first one that matches and forms a valid calendar date gives the result.
\<close>

definition spec_first_valid_date :: "pystr \<Rightarrow> pystr option" where
  "spec_first_valid_date text =
     (case List.find (\<lambda>p. try_date_pattern p text \<noteq> None) date_patterns of
        None \<Rightarrow> None
      | Some p \<Rightarrow> try_date_pattern p text)"

text \<open>
  \<open>_parse_text\<close>: a false value is absent, anything else is stringified and stripped.
\<close>

definition ExcelParser_parse_text :: "(pyfloat \<Rightarrow> pystr) \<Rightarrow> pyval \<Rightarrow> pystr option" where
  "ExcelParser_parse_text float_repr v =
     (if \<not> truthy v then None else Some (strip (py_str float_repr v)))"

text \<open>
  The active worksheet is the grid of its cell values, row by row; a cell that the grid
  does not hold is empty (\<open>None\<close>), as \<open>worksheet.cell(r, c).value\<close> answers. Rows and columns
  count from 1, and \<open>max_row\<close> and \<open>max_column\<close> of an empty sheet are 1.
\<close>

type_synonym worksheet = "pyval list list"

definition max_row :: "worksheet \<Rightarrow> nat" where
  "max_row ws = max 1 (length ws)"

fun widest :: "worksheet \<Rightarrow> nat" where
  "widest [] = 0"
| "widest (r # rs) = max (length r) (widest rs)"

definition max_column :: "worksheet \<Rightarrow> nat" where
  "max_column ws = max 1 (widest ws)"

definition cell_value :: "worksheet \<Rightarrow> nat \<Rightarrow> nat \<Rightarrow> pyval" where
  "cell_value ws r c =
     (if 1 \<le> r \<and> r \<le> length ws \<and> 1 \<le> c \<and> c \<le> length (ws ! (r - 1))
      then ws ! (r - 1) ! (c - 1) else PNone)"

fun cells_from :: "worksheet \<Rightarrow> nat \<Rightarrow> nat \<Rightarrow> nat \<Rightarrow> pyval list" where
  "cells_from ws r c 0 = []"
| "cells_from ws r c (Suc n) = cell_value ws r c # cells_from ws r (Suc c) n"

text \<open>\<open>iter_rows(min_row=r, max_row=r, values_only=True)\<close>: the cells of row \<open>r\<close>.\<close>

definition iter_row :: "worksheet \<Rightarrow> nat \<Rightarrow> pyval list" where
  "iter_row ws r = cells_from ws r 1 (max_column ws)"

text \<open>The table \<open>COLUMN_KEYWORDS\<close>, in the order of the source, by code point.\<close>

definition COLUMN_KEYWORDS :: "(pystr \<times> pystr list) list" where
  "COLUMN_KEYWORDS =
     [(ascii ''date'', [[26085, 26399], ascii ''date'', [26102, 38388], ascii ''time'', [26085],
                       ascii ''day'']),
      (ascii ''type'', [[31867, 22411], ascii ''type'', [31181, 31867], ascii ''category'']),
      (ascii ''name'', [[21517, 31216], ascii ''name'', [39033, 30446], ascii ''item'']),
      (ascii ''meal_time'', [[39184, 27425], [29992, 39184, 26102, 38388], ascii ''meal'',
                            [39184, 39135, 26102, 38388], [26089, 20013, 26202],
                            ascii ''meal time'']),
      (ascii ''food'', [[39135, 29289], [39135, 21697], ascii ''food'', [33756, 21697],
                       [39184, 39135, 20869, 23481], [20869, 23481]]),
      (ascii ''calories'', [[28909, 37327], [21345, 36335, 37324], ascii ''calories'',
                           ascii ''kcal'', [33021, 37327], ascii ''calorie'']),
      (ascii ''exercise'', [[36816, 21160], [38203, 28860], ascii ''exercise'', [35757, 32451],
                           [27963, 21160]]),
      (ascii ''duration'', [[26102, 38271], [26102, 38388], ascii ''duration'', ascii ''time'',
                           [20998, 38047], ascii ''min'', ascii ''minute'']),
      (ascii ''notes'', [[22791, 27880], [35828, 26126], ascii ''notes'', ascii ''remark'',
                        [25551, 36848], ascii ''note''])]"

text \<open>\<open>any(keyword.lower() in cell_str for keyword in keywords)\<close>.\<close>

fun any_keyword_in :: "pystr list \<Rightarrow> pystr \<Rightarrow> bool" where
  "any_keyword_in [] cell_str = False"
| "any_keyword_in (k # ks) cell_str =
     (if contains (lower k) cell_str then True else any_keyword_in ks cell_str)"

text \<open>The first field of the table one of whose keywords occurs in the cell text.\<close>

fun first_field :: "(pystr \<times> pystr list) list \<Rightarrow> pystr \<Rightarrow> pystr option" where
  "first_field [] cell_str = None"
| "first_field ((f, keywords) # rest) cell_str =
     (if any_keyword_in keywords cell_str then Some f else first_field rest cell_str)"

text \<open>
  \<open>_is_header_row\<close>. The test \<open>keyword_count >= non_empty_count * 0.4\<close> is made on floats;
  the product is exact when it is an integer and is otherwise more than 0.1 away from every
  integer, so the test is \<open>5 * keyword_count \<ge> 2 * non_empty_count\<close>.
\<close>

fun count_cells :: "(pyfloat \<Rightarrow> pystr) \<Rightarrow> pyval list \<Rightarrow> nat \<Rightarrow> nat \<Rightarrow> nat \<times> nat" where
  "count_cells float_repr [] keyword_count non_empty_count = (keyword_count, non_empty_count)"
| "count_cells float_repr (cell # cells) keyword_count non_empty_count =
     (if truthy cell then
        (if first_field COLUMN_KEYWORDS (lower (py_str float_repr cell)) \<noteq> None
         then count_cells float_repr cells (Suc keyword_count) (Suc non_empty_count)
         else count_cells float_repr cells keyword_count (Suc non_empty_count))
      else count_cells float_repr cells keyword_count non_empty_count)"

definition ExcelParser_is_header_row :: "(pyfloat \<Rightarrow> pystr) \<Rightarrow> pyval list \<Rightarrow> bool" where
  "ExcelParser_is_header_row float_repr row =
     (if row = [] then False
      else (case count_cells float_repr row 0 0 of
              (keyword_count, non_empty_count) \<Rightarrow>
                0 < non_empty_count \<and> 2 * non_empty_count \<le> 5 * keyword_count))"

text \<open>The column mapping: field name to column number, with the entry \<open>header_row\<close>.\<close>

type_synonym column_mapping = "(pystr \<times> nat) list"

fun map_cells ::
  "(pyfloat \<Rightarrow> pystr) \<Rightarrow> pyval list \<Rightarrow> nat \<Rightarrow> column_mapping \<Rightarrow> column_mapping" where
  "map_cells float_repr [] col_idx mapping = mapping"
| "map_cells float_repr (cell # cells) col_idx mapping =
     (if \<not> truthy cell then map_cells float_repr cells (Suc col_idx) mapping
      else (case first_field COLUMN_KEYWORDS (lower (py_str float_repr cell)) of
              None \<Rightarrow> map_cells float_repr cells (Suc col_idx) mapping
            | Some f \<Rightarrow> map_cells float_repr cells (Suc col_idx) (AList.update f col_idx mapping)))"

definition ExcelParser_map_columns ::
  "(pyfloat \<Rightarrow> pystr) \<Rightarrow> pyval list \<Rightarrow> nat \<Rightarrow> column_mapping" where
  "ExcelParser_map_columns float_repr header_row row_idx =
     map_cells float_repr header_row 1 [(ascii ''header_row'', row_idx)]"

definition default_mapping :: column_mapping where
  "default_mapping =
     [(ascii ''header_row'', 1), (ascii ''date'', 1), (ascii ''meal_time'', 2), (ascii ''food'', 3),
      (ascii ''calories'', 4), (ascii ''exercise'', 5), (ascii ''duration'', 6),
      (ascii ''notes'', 7)]"

text \<open>
  \<open>_identify_columns\<close>: the rows \<open>1 .. min(5, max_row)\<close> are scanned for a header; the first
  one found is mapped, and no header at all gives the default mapping.
\<close>

fun scan_header :: "(pyfloat \<Rightarrow> pystr) \<Rightarrow> worksheet \<Rightarrow> nat \<Rightarrow> nat \<Rightarrow> column_mapping" where
  "scan_header float_repr ws row_idx 0 = default_mapping"
| "scan_header float_repr ws row_idx (Suc n) =
     (if ExcelParser_is_header_row float_repr (iter_row ws row_idx)
      then ExcelParser_map_columns float_repr (iter_row ws row_idx) row_idx
      else scan_header float_repr ws (Suc row_idx) n)"

definition ExcelParser_identify_columns :: "(pyfloat \<Rightarrow> pystr) \<Rightarrow> worksheet \<Rightarrow> column_mapping" where
  "ExcelParser_identify_columns float_repr ws =
     scan_header float_repr ws 1 (min 6 (max_row ws + 1) - 1)"

text \<open>The branch of \<open>_extract_row\<close> for one field.\<close>

definition parse_cell :: "(pyfloat \<Rightarrow> pystr) \<Rightarrow> pystr \<Rightarrow> pyval \<Rightarrow> pyerr + pyval" where
  "parse_cell float_repr f cell =
     (if f = ascii ''date'' then Inr (opt_str (ExcelParser_parse_date cell))
      else if f = ascii ''calories'' then map_sum id opt_float (ExcelParser_parse_number cell)
      else if f = ascii ''duration'' then map_sum id opt_float (ExcelParser_parse_number cell)
      else Inr (opt_str (ExcelParser_parse_text float_repr cell)))"

fun extract_fields ::
  "(pyfloat \<Rightarrow> pystr) \<Rightarrow> worksheet \<Rightarrow> nat \<Rightarrow> column_mapping \<Rightarrow> pydict \<Rightarrow> pyerr + pydict" where
  "extract_fields float_repr ws row_idx [] row_data = Inr row_data"
| "extract_fields float_repr ws row_idx ((f, col_idx) # rest) row_data =
     (if f = ascii ''header_row'' then extract_fields float_repr ws row_idx rest row_data
      else (case parse_cell float_repr f (cell_value ws row_idx col_idx) of
              Inl e \<Rightarrow> Inl e
            | Inr v \<Rightarrow>
                extract_fields float_repr ws row_idx rest (AList.update f v row_data)))"

definition ExcelParser_extract_row ::
  "(pyfloat \<Rightarrow> pystr) \<Rightarrow> worksheet \<Rightarrow> column_mapping \<Rightarrow> nat \<Rightarrow> pyerr + pydict" where
  "ExcelParser_extract_row float_repr ws mapping row_idx =
     extract_fields float_repr ws row_idx mapping []"

text \<open>
  \<open>_extract_data\<close>: the rows after the header, up to \<open>max_row\<close>; a row is kept when it is
  not empty and one of its values is true.
\<close>

fun extract_rows ::
  "(pyfloat \<Rightarrow> pystr) \<Rightarrow> worksheet \<Rightarrow> column_mapping \<Rightarrow> nat \<Rightarrow> nat \<Rightarrow> pyerr + pydict list" where
  "extract_rows float_repr ws mapping row_idx 0 = Inr []"
| "extract_rows float_repr ws mapping row_idx (Suc n) =
     (case ExcelParser_extract_row float_repr ws mapping row_idx of
        Inl e \<Rightarrow> Inl e
      | Inr row_data \<Rightarrow>
          (case extract_rows float_repr ws mapping (Suc row_idx) n of
             Inl e \<Rightarrow> Inl e
           | Inr data \<Rightarrow>
               Inr (if row_data \<noteq> [] \<and> any_truthy (map snd row_data)
                    then row_data # data else data)))"

definition header_row_of :: "column_mapping \<Rightarrow> nat" where
  "header_row_of mapping =
     (case map_of mapping (ascii ''header_row'') of None \<Rightarrow> 1 | Some r \<Rightarrow> r)"

definition ExcelParser_extract_data ::
  "(pyfloat \<Rightarrow> pystr) \<Rightarrow> worksheet \<Rightarrow> column_mapping \<Rightarrow> pyerr + pydict list" where
  "ExcelParser_extract_data float_repr ws mapping =
     extract_rows float_repr ws mapping (header_row_of mapping + 1)
       (max_row ws + 1 - (header_row_of mapping + 1))"

text \<open>
  \<open>parse_file\<close>, from the opened worksheet on. Every exception of the extraction is caught
  and raised again as \<open>ExcelParseError\<close>.
\<close>

datatype parse_error = ExcelParseError | PDFParseError

definition ExcelParser_parse_file ::
  "(pyfloat \<Rightarrow> pystr) \<Rightarrow> worksheet \<Rightarrow> parse_error + pydict list" where
  "ExcelParser_parse_file float_repr ws =
     (case ExcelParser_extract_data float_repr ws (ExcelParser_identify_columns float_repr ws) of
        Inl e \<Rightarrow> Inl ExcelParseError
      | Inr data \<Rightarrow> Inr data)"




text \<open>
  A sheet with the explicit layout: the header U+7C7B U+578B, U+540D U+79F0, U+65E5 U+671F
  (type, name, date) and one row whose type cell is empty.
\<close>

definition sample_typed_sheet :: worksheet where
  "sample_typed_sheet =
     [[PStr [31867, 22411], PStr [21517, 31216], PStr [26085, 26399]],
      [PNone, PStr [40481, 33016, 32905], PStr (ascii ''2024-01-01'')]]"

section \<open>The plan converter (convert\_to\_plan\_items of excel\_parser.py)\<close>

text \<open>
  \<open>value.strip()\<close> on a field value: only a \<open>str\<close> has the method, every other value,
  \<open>None\<close> included, raises \<open>AttributeError\<close>.
\<close>

fun py_strip :: "pyval \<Rightarrow> pyerr + pystr" where
  "py_strip (PStr s) = Inr (strip s)"
| "py_strip _ = Inl AttributeError"

text \<open>
  The synonyms of the two kinds of item: U+9910 U+98DF, \<open>meal\<close>, U+98DF U+7269 for a meal and
  U+8FD0 U+52A8, \<open>exercise\<close>, U+953B U+70BC for an exercise; and the default meal time,
  U+672A U+6307 U+5B9A.
\<close>

definition meal_types :: "pystr list" where
  "meal_types = [[39184, 39135], ascii ''meal'', [39135, 29289]]"

definition exercise_types :: "pystr list" where
  "exercise_types = [[36816, 21160], ascii ''exercise'', [38203, 28860]]"

definition unspecified :: pystr where
  "unspecified = [26410, 25351, 23450]"

record PlanItems =
  meals :: "pydict list"
  exercises :: "pydict list"

text \<open>The dict literals of the source; \<open>food\<close> and \<open>name\<close> differ between the two layouts.\<close>

definition meal_entry :: "pydict \<Rightarrow> pyval \<Rightarrow> pydict" where
  "meal_entry row food =
     [(ascii ''date'', dict_get row (ascii ''date'')),
      (ascii ''meal_time'', dict_get_default row (ascii ''meal_time'') (PStr unspecified)),
      (ascii ''food'', food),
      (ascii ''calories'', dict_get_default row (ascii ''calories'') (PInt 0)),
      (ascii ''notes'', dict_get row (ascii ''notes''))]"

definition exercise_entry :: "pydict \<Rightarrow> pyval \<Rightarrow> pydict" where
  "exercise_entry row name =
     [(ascii ''date'', dict_get row (ascii ''date'')),
      (ascii ''name'', name),
      (ascii ''duration'', dict_get_default row (ascii ''duration'') (PInt 0)),
      (ascii ''calories_burned'', dict_get_default row (ascii ''calories'') (PInt 0)),
      (ascii ''notes'', dict_get row (ascii ''notes''))]"

definition add_meal :: "pydict \<Rightarrow> PlanItems \<Rightarrow> PlanItems" where
  "add_meal m acc = acc\<lparr>meals := meals acc @ [m]\<rparr>"

definition add_exercise :: "pydict \<Rightarrow> PlanItems \<Rightarrow> PlanItems" where
  "add_exercise e acc = acc\<lparr>exercises := exercises acc @ [e]\<rparr>"

definition convert_explicit :: "pydict \<Rightarrow> pystr \<Rightarrow> pystr \<Rightarrow> PlanItems \<Rightarrow> PlanItems" where
  "convert_explicit row item_type item_name acc =
     (if item_type \<in> set meal_types then add_meal (meal_entry row (PStr item_name)) acc
      else if item_type \<in> set exercise_types
        then add_exercise (exercise_entry row (PStr item_name)) acc
      else acc)"

definition legacy_meal :: "pydict \<Rightarrow> PlanItems \<Rightarrow> PlanItems" where
  "legacy_meal row acc =
     (if truthy (dict_get row (ascii ''food''))
      then add_meal (meal_entry row (dict_get row (ascii ''food''))) acc else acc)"

definition legacy_exercise :: "pydict \<Rightarrow> PlanItems \<Rightarrow> PlanItems" where
  "legacy_exercise row acc =
     (if truthy (dict_get row (ascii ''exercise''))
      then add_exercise (exercise_entry row (dict_get row (ascii ''exercise''))) acc else acc)"

text \<open>The body of the loop over the rows; the two \<open>strip\<close> calls come first.\<close>

definition convert_row :: "pydict \<Rightarrow> PlanItems \<Rightarrow> pyerr + PlanItems" where
  "convert_row row acc =
     (case py_strip (dict_get_default row (ascii ''type'') (PStr [])) of
        Inl e \<Rightarrow> Inl e
      | Inr item_type \<Rightarrow>
          (case py_strip (dict_get_default row (ascii ''name'') (PStr [])) of
             Inl e \<Rightarrow> Inl e
           | Inr item_name \<Rightarrow>
               Inr (if item_type \<noteq> [] \<and> item_name \<noteq> []
                    then convert_explicit row item_type item_name acc
                    else legacy_exercise row (legacy_meal row acc))))"

fun convert_rows :: "pydict list \<Rightarrow> PlanItems \<Rightarrow> pyerr + PlanItems" where
  "convert_rows [] acc = Inr acc"
| "convert_rows (row # rest) acc =
     (case convert_row row acc of
        Inl e \<Rightarrow> Inl e
      | Inr acc' \<Rightarrow> convert_rows rest acc')"

definition convert_to_plan_items :: "pydict list \<Rightarrow> pyerr + PlanItems" where
  "convert_to_plan_items parsed_data = convert_rows parsed_data \<lparr>meals = [], exercises = []\<rparr>"





text \<open>A key is textual in a row when it is missing or bound to a string.\<close>

definition textual :: "pydict \<Rightarrow> pystr \<Rightarrow> bool" where
  "textual row k = (case map_of row k of None \<Rightarrow> True | Some (PStr s) \<Rightarrow> True | _ \<Rightarrow> False)"


section \<open>The format sniffer (file\_validator.py)\<close>

text \<open>
  What \<open>validate_file\<close> observes of its environment: the answers of \<open>os.path.exists\<close>,
  \<open>os.path.isfile\<close>, \<open>os.path.getsize\<close> and \<open>os.access\<close> for the path, the bytes at the
  start of the file (\<open>None\<close> when the file cannot be opened), whether the optional
  \<open>python-magic\<close> library was imported (\<open>HAS_MAGIC\<close>) and what \<open>magic.from_file\<close> answers
  (\<open>None\<close> when it raises). These calls are taken not to raise otherwise.
\<close>

record file_env =
  file_path :: pystr
  path_exists :: bool
  path_isfile :: bool
  file_size :: nat
  file_bytes :: "nat list option"
  HAS_MAGIC :: bool
  magic_from_file :: "pystr option"
  access_R_OK :: bool
  access_X_OK :: bool

definition MAX_FILE_SIZE :: int where
  "MAX_FILE_SIZE = 10 * 1024 * 1024"

definition MIN_FILE_SIZE :: int where
  "MIN_FILE_SIZE = 100"

text \<open>\<open>self.max_size = max_size or self.MAX_FILE_SIZE\<close>: \<open>None\<close> and 0 give the default.\<close>

fun effective_max_size :: "int option \<Rightarrow> int" where
  "effective_max_size None = MAX_FILE_SIZE"
| "effective_max_size (Some m) = (if m = 0 then MAX_FILE_SIZE else m)"

text \<open>The table \<open>SUPPORTED_TYPES\<close>: extensions, MIME types and magic numbers of each type.\<close>

definition SUPPORTED_TYPES :: "(pystr \<times> pystr list \<times> pystr list \<times> nat list list) list" where
  "SUPPORTED_TYPES =
     [(ascii ''excel'',
       [ascii ''.xlsx'', ascii ''.xls''],
       [ascii ''application/vnd.openxmlformats-officedocument.spreadsheetml.sheet'',
        ascii ''application/vnd.ms-excel''],
       [[80, 75, 3, 4], [208, 207, 17, 224, 161, 177, 26, 225]]),
      (ascii ''pdf'',
       [ascii ''.pdf''],
       [ascii ''application/pdf''],
       [[37, 80, 68, 70]])]"

text \<open>
  \<open>Path(file_path).suffix\<close>: the name is the last component of the path that is neither
  empty nor a single dot, and the suffix starts at the last dot of the name, unless that dot
  is the first or the last character of the name.
\<close>

fun split_acc :: "nat \<Rightarrow> pystr \<Rightarrow> pystr \<Rightarrow> pystr list" where
  "split_acc d cur [] = [rev cur]"
| "split_acc d cur (c # cs) = (if c = d then rev cur # split_acc d [] cs else split_acc d (c # cur) cs)"

definition split_on :: "nat \<Rightarrow> pystr \<Rightarrow> pystr list" where
  "split_on d s = split_acc d [] s"

definition path_name :: "pystr \<Rightarrow> pystr" where
  "path_name p =
     (case rev (filter (\<lambda>part. part \<noteq> [] \<and> part \<noteq> [46]) (split_on 47 p)) of
        [] \<Rightarrow> []
      | n # ns \<Rightarrow> n)"

definition name_suffix :: "pystr \<Rightarrow> pystr" where
  "name_suffix n =
     (if 46 \<in> set n \<and> takeWhile (\<lambda>c. c \<noteq> 46) (rev n) \<noteq> []
         \<and> Suc (length (takeWhile (\<lambda>c. c \<noteq> 46) (rev n))) < length n
      then 46 # rev (takeWhile (\<lambda>c. c \<noteq> 46) (rev n))
      else [])"

definition path_suffix :: "pystr \<Rightarrow> pystr" where
  "path_suffix p = name_suffix (path_name p)"

fun detect_in ::
  "(pystr \<times> pystr list \<times> pystr list \<times> nat list list) list \<Rightarrow> pystr \<Rightarrow> pystr option" where
  "detect_in [] extension = None"
| "detect_in ((file_type, extensions, mimes, magics) # rest) extension =
     (if extension \<in> set extensions then Some file_type else detect_in rest extension)"

definition FileValidator_detect_type_by_extension :: "pystr \<Rightarrow> pystr option" where
  "FileValidator_detect_type_by_extension extension = detect_in SUPPORTED_TYPES extension"

fun mime_types_of :: "pystr \<Rightarrow> pystr list" where
  "mime_types_of t =
     (case map_of SUPPORTED_TYPES t of None \<Rightarrow> [] | Some (extensions, mimes, magics) \<Rightarrow> mimes)"

fun magic_numbers_of :: "pystr \<Rightarrow> nat list list" where
  "magic_numbers_of t =
     (case map_of SUPPORTED_TYPES t of None \<Rightarrow> [] | Some (extensions, mimes, magics) \<Rightarrow> magics)"

fun starts_with_any :: "nat list \<Rightarrow> nat list list \<Rightarrow> bool" where
  "starts_with_any hdr [] = False"
| "starts_with_any hdr (m # ms) = (if is_prefix m hdr then True else starts_with_any hdr ms)"

text \<open>\<open>_validate_magic_number\<close> reads 8 bytes; any exception makes it answer \<open>False\<close>.\<close>

definition FileValidator_validate_magic_number :: "file_env \<Rightarrow> pystr \<Rightarrow> bool" where
  "FileValidator_validate_magic_number env expected_type =
     (case file_bytes env of
        None \<Rightarrow> False
      | Some bs \<Rightarrow> starts_with_any (take 8 bs) (magic_numbers_of expected_type))"

definition FileValidator_validate_mime_type :: "pystr \<Rightarrow> pystr \<Rightarrow> bool" where
  "FileValidator_validate_mime_type mime_type expected_type =
     (mime_type \<in> set (mime_types_of expected_type))"

definition dangerous_chars :: "pystr list" where
  "dangerous_chars = [ascii ''..'', ascii ''~'', ascii ''$'', [96], ascii ''|'', ascii '';'',
                      ascii ''&'']"

definition msg_dangerous :: pystr where
  "msg_dangerous = [25991, 20214, 36335, 24452, 21253, 21547, 21361, 38505, 23383, 31526, 58, 32]"

definition msg_unreadable :: pystr where
  "msg_unreadable = [25991, 20214, 19981, 21487, 35835]"

definition msg_executable :: pystr where
  "msg_executable = [25991, 20214, 20855, 26377, 21487, 25191, 34892, 26435, 38480, 65292, 21487,
     33021, 19981, 23433, 20840]"

fun first_dangerous :: "pystr list \<Rightarrow> pystr \<Rightarrow> pystr option" where
  "first_dangerous [] p = None"
| "first_dangerous (d # ds) p = (if contains d p then Some d else first_dangerous ds p)"

definition FileValidator_security_check :: "file_env \<Rightarrow> bool \<times> pystr option" where
  "FileValidator_security_check env =
     (case first_dangerous dangerous_chars (file_path env) of
        Some d \<Rightarrow> (False, Some (msg_dangerous @ d))
      | None \<Rightarrow>
          if \<not> access_R_OK env then (False, Some msg_unreadable)
          else if access_X_OK env then (False, Some msg_executable)
          else (True, None))"

definition msg_not_exist :: pystr where
  "msg_not_exist = [25991, 20214, 19981, 23384, 22312, 58, 32]"

definition msg_not_file :: pystr where
  "msg_not_file = [19981, 26159, 26377, 25928, 30340, 25991, 20214, 58, 32]"

definition msg_too_small :: "nat \<Rightarrow> pystr" where
  "msg_too_small n = [25991, 20214, 22826, 23567, 58, 32] @ dec n @ ascii '' bytes (''
     @ [26368, 23567, 32] @ ascii ''100 bytes)''"

definition msg_too_large :: "nat \<Rightarrow> int \<Rightarrow> pystr" where
  "msg_too_large n m = [25991, 20214, 22826, 22823, 58, 32] @ dec n @ ascii '' bytes (''
     @ [26368, 22823, 32] @ (if m < 0 then [45] @ dec (nat (- m)) else dec (nat m))
     @ ascii '' bytes)''"

definition msg_unsupported_ext :: pystr where
  "msg_unsupported_ext = [19981, 25903, 25345, 30340, 25991, 20214, 25193, 23637, 21517, 58, 32]"

definition msg_content_mismatch :: pystr where
  "msg_content_mismatch = [25991, 20214, 20869, 23481, 19982, 25193, 23637, 21517, 19981, 21305,
     37197, 58, 32]"

definition msg_mime_mismatch :: pystr where
  "msg_mime_mismatch = ascii ''MIME '' @ [31867, 22411, 19981, 21305, 37197, 58, 32]"

text \<open>
  Step 6 of \<open>validate_file\<close>: with \<open>python-magic\<close> imported, a MIME type outside the list of
  the detected type ends the validation; only an exception of \<open>magic.from_file\<close> is passed
  over. The result is \<open>None\<close> when the validation goes on to the security check.
\<close>

definition mime_step :: "file_env \<Rightarrow> pystr \<Rightarrow> (bool \<times> pystr option \<times> pystr option) option" where
  "mime_step env detected_type =
     (if HAS_MAGIC env then
        (case magic_from_file env of
           None \<Rightarrow> None
         | Some mime_type \<Rightarrow>
             if \<not> FileValidator_validate_mime_type mime_type detected_type
             then Some (False, None, Some (msg_mime_mismatch @ mime_type))
             else None)
      else None)"

definition security_step :: "file_env \<Rightarrow> pystr \<Rightarrow> bool \<times> pystr option \<times> pystr option" where
  "security_step env detected_type =
     (case FileValidator_security_check env of
        (security_check, security_error) \<Rightarrow>
          if \<not> security_check then (False, None, security_error)
          else (True, Some detected_type, None))"

definition content_steps :: "file_env \<Rightarrow> pystr \<Rightarrow> pystr \<Rightarrow> bool \<times> pystr option \<times> pystr option" where
  "content_steps env file_ext detected_type =
     (if \<not> FileValidator_validate_magic_number env detected_type
      then (False, None, Some (msg_content_mismatch @ file_ext))
      else (case mime_step env detected_type of
              Some rejected \<Rightarrow> rejected
            | None \<Rightarrow> security_step env detected_type))"

definition FileValidator_validate_file ::
  "int option \<Rightarrow> file_env \<Rightarrow> bool \<times> pystr option \<times> pystr option" where
  "FileValidator_validate_file max_size env =
     (if \<not> path_exists env then (False, None, Some (msg_not_exist @ file_path env))
      else if \<not> path_isfile env then (False, None, Some (msg_not_file @ file_path env))
      else if int (file_size env) < MIN_FILE_SIZE
        then (False, None, Some (msg_too_small (file_size env)))
      else if effective_max_size max_size < int (file_size env)
        then (False, None, Some (msg_too_large (file_size env) (effective_max_size max_size)))
      else (case FileValidator_detect_type_by_extension (lower (path_suffix (file_path env))) of
              None \<Rightarrow> (False, None, Some (msg_unsupported_ext @ lower (path_suffix (file_path env))))
            | Some detected_type \<Rightarrow>
                content_steps env (lower (path_suffix (file_path env))) detected_type))"

text \<open>The four checks that come before the MIME step, and the security check, as predicates.\<close>

definition passes_basic_checks :: "int option \<Rightarrow> file_env \<Rightarrow> pystr \<Rightarrow> bool" where
  "passes_basic_checks max_size env detected_type =
     (path_exists env \<and> path_isfile env
      \<and> MIN_FILE_SIZE \<le> int (file_size env) \<and> int (file_size env) \<le> effective_max_size max_size
      \<and> FileValidator_detect_type_by_extension (lower (path_suffix (file_path env)))
            = Some detected_type
      \<and> FileValidator_validate_magic_number env detected_type)"

definition passes_security :: "file_env \<Rightarrow> bool" where
  "passes_security env = (fst (FileValidator_security_check env))"

text \<open>A sample upload: a workbook in ZIP format that \<open>libmagic\<close> reports as a ZIP archive.\<close>

definition sample_xlsx :: file_env where
  "sample_xlsx =
     \<lparr>file_path = ascii ''/tmp/tmpk3v9.xlsx'', path_exists = True, path_isfile = True,
      file_size = 5120, file_bytes = Some [80, 75, 3, 4, 20, 0, 6, 0, 8, 0],
      HAS_MAGIC = True, magic_from_file = Some (ascii ''application/zip''),
      access_R_OK = True, access_X_OK = False\<rparr>"

section \<open>Properties\<close>

subsection \<open>Validating an empty batch\<close>

text \<open>
  Claim C5. For every kind (\<open>meal\<close>, \<open>exercise\<close>, \<open>general\<close>, and in fact every string),
  validating the empty row list returns a result that is not valid and holds exactly one
  error, of type \<open>EMPTY_DATA\<close>, and no warning. The result is the one built before the loop
  over the rows: no per-row check has added to it.
\<close>

theorem C5_empty_batch:
  "DataValidator_validate_parsed_data float_repr [] data_type =
     Inr \<lparr>errors = [\<lparr>error_type = EMPTY_DATA, field = ascii ''data'', message = msg_empty,
                      row_index = None, val = PNone\<rparr>],
          warnings = []\<rparr>
   \<and> (\<forall>r. DataValidator_validate_parsed_data float_repr [] data_type = Inr r \<longrightarrow>
          \<not> is_valid r \<and> length (errors r) = 1
          \<and> error_type (hd (errors r)) = EMPTY_DATA \<and> length (warnings r) = 0)"
  by (simp add: DataValidator_validate_parsed_data_def add_error_def new_result_def is_valid_def)

theorem C5_empty_batch_witness:
  "\<exists>r. DataValidator_validate_parsed_data (\<lambda>f. []) [] (ascii ''meal'') = Inr r
       \<and> \<not> is_valid r \<and> length (errors r) = 1
       \<and> error_type (hd (errors r)) = EMPTY_DATA \<and> length (warnings r) = 0"
  using C5_empty_batch [of "\<lambda>f. []" "ascii ''meal''"] by blast

subsection \<open>The calories range check\<close>




lemma warnings_add_error: "warnings (add_error t f m i v r) = warnings r"
  by (simp add: add_error_def)


lemma warnings_add_warning: "warnings (add_warning m r) = warnings r @ [m]"
  by (simp add: add_warning_def)














lemmas validate_defs = DataValidator_validate_parsed_data_def DataValidator_validate_row_def
  check_required_def check_recommended_def check_date_def check_number_def
  DataValidator_is_valid_number_def REQUIRED_FIELDS_def RECOMMENDED_FIELDS_def
  add_error_def add_warning_def new_result_def is_valid_def text_fields_def ascii_def
  round_double_def dict_get_def








subsection \<open>Missing recommended fields\<close>

lemmas strptime_defs = strptime_ok_def fmt_Ymd_def fmt_dmY_def seqs_def alts_def
  strptime_Y_def strptime_m_def strptime_d_def is_decimal_def decimal_value_def
  valid_date_def days_in_month_def is_leap_def int_of_digits_def strip_def is_space_def













subsection \<open>The number parser\<close>



lemma clean_number_chars:
  "c \<in> set (clean_number s) \<Longrightarrow> is_decimal c \<or> c = 46 \<or> c = 45"
  by (auto simp: clean_number_def non_numeric_def)

lemma clean_number_keeps:
  "is_decimal c \<or> c = 46 \<or> c = 45 \<Longrightarrow> c \<in> set s \<Longrightarrow> c \<in> set (clean_number s)"
  by (auto simp: clean_number_def non_numeric_def)




subsection \<open>The date parser\<close>

lemmas date_defs = date_patterns_def seqs_def digits_def sep_def ascii_def is_decimal_def
  decimal_value_def try_date_pattern_def make_date_def valid_date_def days_in_month_def
  is_leap_def strftime_ymd_def int_of_digits_def dec.simps PDFParser_extract_date_def

lemma extract_date_from_find:
  "extract_date_from ps text =
     (case List.find (\<lambda>p. try_date_pattern p text \<noteq> None) ps of
        None \<Rightarrow> None
      | Some p \<Rightarrow> try_date_pattern p text)"
  by (induction ps) (auto split: option.splits)

lemma date_iso: "PDFParser_extract_date (ascii ''2024-12-02'') = Some (ascii ''2024-12-02'')"
  by (simp add: date_defs)

lemma date_us: "PDFParser_extract_date (ascii ''12/02/2024'') = Some (ascii ''2024-12-02'')"
  by (simp add: date_defs)

lemma date_cjk:
  "PDFParser_extract_date (ascii ''2024'' @ [24180] @ ascii ''12'' @ [26376] @ ascii ''2'' @ [26085])
     = Some (ascii ''2024-12-02'')"
  by (simp add: date_defs decimal_zeros_def)

lemma date_fall_through:
  "re_search (date_patterns ! 0) (ascii ''2024-13-01 12/02/2024'') =
     Some (ascii ''2024-13-01'', ascii '' 12/02/2024'', [ascii ''2024'', ascii ''13'', ascii ''01''])"
  "try_date_pattern (date_patterns ! 0) (ascii ''2024-13-01 12/02/2024'') = None"
  "PDFParser_extract_date (ascii ''2024-13-01 12/02/2024'') = Some (ascii ''2024-12-02'')"
  by (simp_all add: date_defs)

text \<open>
  Claim C3. The strings \<open>2024-12-02\<close>, \<open>12/02/2024\<close> and \<open>2024Y12M2D\<close> (Y, M, D for the
  characters U+5E74, U+6708, U+65E5) are each normalized to \<open>2024-12-02\<close>, by
  \<open>ExcelParser._parse_date\<close> and by \<open>PDFParser._extract_date\<close>. Both functions return, for
  every string, what the first pattern that matches and forms a valid calendar date gives,
  and nothing when there is none. In \<open>2024-13-01 12/02/2024\<close> the first pattern matches
  \<open>2024-13-01\<close>, which is no date, and the result comes from the second pattern.
\<close>

theorem C3_date_normalization:
  "PDFParser_extract_date (ascii ''2024-12-02'') = Some (ascii ''2024-12-02'')
   \<and> PDFParser_extract_date (ascii ''12/02/2024'') = Some (ascii ''2024-12-02'')
   \<and> PDFParser_extract_date
         (ascii ''2024'' @ [24180] @ ascii ''12'' @ [26376] @ ascii ''2'' @ [26085])
       = Some (ascii ''2024-12-02'')
   \<and> ExcelParser_parse_date (PStr (ascii ''2024-12-02'')) = Some (ascii ''2024-12-02'')
   \<and> ExcelParser_parse_date (PStr (ascii ''12/02/2024'')) = Some (ascii ''2024-12-02'')
   \<and> ExcelParser_parse_date
         (PStr (ascii ''2024'' @ [24180] @ ascii ''12'' @ [26376] @ ascii ''2'' @ [26085]))
       = Some (ascii ''2024-12-02'')
   \<and> PDFParser_extract_date text = spec_first_valid_date text
   \<and> (text \<noteq> [] \<longrightarrow> ExcelParser_parse_date (PStr text) = spec_first_valid_date text)
   \<and> re_search (date_patterns ! 0) (ascii ''2024-13-01 12/02/2024'') =
       Some (ascii ''2024-13-01'', ascii '' 12/02/2024'',
             [ascii ''2024'', ascii ''13'', ascii ''01''])
   \<and> try_date_pattern (date_patterns ! 0) (ascii ''2024-13-01 12/02/2024'') = None
   \<and> PDFParser_extract_date (ascii ''2024-13-01 12/02/2024'') = Some (ascii ''2024-12-02'')"
proof -
  have spec: "PDFParser_extract_date t = spec_first_valid_date t" for t
    by (simp add: PDFParser_extract_date_def spec_first_valid_date_def extract_date_from_find)
  have excel: "ExcelParser_parse_date (PStr t) = PDFParser_extract_date t" if "t \<noteq> []" for t
    using that by (simp add: PDFParser_extract_date_def)
  have e1: "ExcelParser_parse_date (PStr (ascii ''2024-12-02'')) = Some (ascii ''2024-12-02'')"
    using excel [of "ascii ''2024-12-02''"] date_iso by (simp add: ascii_def)
  have e2: "ExcelParser_parse_date (PStr (ascii ''12/02/2024'')) = Some (ascii ''2024-12-02'')"
    using excel [of "ascii ''12/02/2024''"] date_us by (simp add: ascii_def)
  have e3: "ExcelParser_parse_date
         (PStr (ascii ''2024'' @ [24180] @ ascii ''12'' @ [26376] @ ascii ''2'' @ [26085]))
       = Some (ascii ''2024-12-02'')"
    using excel [of "ascii ''2024'' @ [24180] @ ascii ''12'' @ [26376] @ ascii ''2'' @ [26085]"]
      date_cjk by (simp add: ascii_def)
  show ?thesis
    using date_iso date_us date_cjk e1 e2 e3 spec [of "text"] excel [of "text"] date_fall_through
    by simp
qed

theorem C3_date_normalization_witness:
  "ExcelParser_parse_date (PStr (ascii ''31/12/1999'')) = None
   \<and> spec_first_valid_date (ascii ''31/12/1999'') = None
   \<and> ExcelParser_parse_date (PStr (ascii ''1999/12/31'')) = Some (ascii ''1999-12-31'')"
proof -
  have a: "PDFParser_extract_date (ascii ''31/12/1999'') = None"
    by (simp add: date_defs)
  have b: "PDFParser_extract_date (ascii ''1999/12/31'') = Some (ascii ''1999-12-31'')"
    by (simp add: date_defs)
  have n: "ascii ''31/12/1999'' \<noteq> []" "ascii ''1999/12/31'' \<noteq> []"
    by (simp_all add: ascii_def)
  show ?thesis
    using C3_date_normalization [of "ascii ''31/12/1999''"]
      C3_date_normalization [of "ascii ''1999/12/31''"] a b n
    by simp
qed

subsection \<open>The plan converter\<close>







text \<open>
  Claim C10 does not hold of the code. The default of \<open>row.get('type', '')\<close> is used only
  when the key is missing: a row whose \<open>type\<close> is bound to \<open>None\<close>, as the tabular
  extractor binds it for an empty cell of a mapped column, makes \<open>.strip()\<close> raise
  \<open>AttributeError\<close>, and so does a \<open>name\<close> bound to \<open>None\<close>. The converter then returns
  nothing for the whole list.
\<close>

theorem C10_converter_raises:
  "(map_of row (ascii ''type'') = Some PNone \<longrightarrow>
      convert_to_plan_items (row # rest) = Inl AttributeError)
   \<and> (textual row (ascii ''type'') \<and> map_of row (ascii ''name'') = Some PNone \<longrightarrow>
      convert_to_plan_items (row # rest) = Inl AttributeError)"
proof (intro conjI impI)
  assume "map_of row (ascii ''type'') = Some PNone"
  then show "convert_to_plan_items (row # rest) = Inl AttributeError"
    by (simp add: convert_to_plan_items_def convert_row_def dict_get_default_def)
next
  assume a: "textual row (ascii ''type'') \<and> map_of row (ascii ''name'') = Some PNone"
  then have "\<exists>t. py_strip (dict_get_default row (ascii ''type'') (PStr [])) = Inr t"
    by (auto simp: textual_def dict_get_default_def split: option.splits pyval.splits)
  with a show "convert_to_plan_items (row # rest) = Inl AttributeError"
    by (auto simp: convert_to_plan_items_def convert_row_def dict_get_default_def)
qed

theorem C10_converter_raises_witness:
  "convert_to_plan_items
     [[(ascii ''date'', PStr (ascii ''2024-01-01'')), (ascii ''type'', PNone),
       (ascii ''name'', PStr (ascii ''rice''))]] = Inl AttributeError
   \<and> convert_to_plan_items
     [[(ascii ''date'', PStr (ascii ''2024-01-01'')), (ascii ''type'', PStr (ascii ''meal'')),
       (ascii ''name'', PNone)]] = Inl AttributeError"
  using C10_converter_raises
      [of "[(ascii ''date'', PStr (ascii ''2024-01-01'')), (ascii ''type'', PNone),
            (ascii ''name'', PStr (ascii ''rice''))]" "[]"]
    C10_converter_raises
      [of "[(ascii ''date'', PStr (ascii ''2024-01-01'')), (ascii ''type'', PStr (ascii ''meal'')),
            (ascii ''name'', PNone)]" "[]"]
  by (simp add: textual_def ascii_def)

subsection \<open>The MIME step of the format sniffer\<close>

lemmas sniffer_defs = FileValidator_validate_file_def content_steps_def mime_step_def
  security_step_def FileValidator_security_check_def dangerous_chars_def path_suffix_def
  path_name_def split_on_def name_suffix_def lower_cp_def
  FileValidator_detect_type_by_extension_def SUPPORTED_TYPES_def
  FileValidator_validate_magic_number_def FileValidator_validate_mime_type_def
  MIN_FILE_SIZE_def MAX_FILE_SIZE_def passes_basic_checks_def passes_security_def ascii_def

lemma validate_file_after_basic:
  assumes "passes_basic_checks max_size env t"
  shows "FileValidator_validate_file max_size env =
           (case mime_step env t of Some rejected \<Rightarrow> rejected | None \<Rightarrow> security_step env t)"
  using assms
  by (simp add: passes_basic_checks_def FileValidator_validate_file_def content_steps_def)

lemma security_step_passes:
  "passes_security env \<Longrightarrow> security_step env t = (True, Some t, None)"
  by (cases "FileValidator_security_check env") (simp add: passes_security_def security_step_def)

text \<open>
  Claim C7, as the code has it. For a file that passes the existence, size, extension and
  magic-number checks and the security check, \<open>validate_file\<close> accepts the file exactly when
  \<open>python-magic\<close> is not installed, or \<open>magic.from_file\<close> raises, or the MIME type it reports
  is one of the MIME types of the detected file type. A reported MIME type outside that list
  is fatal: the result is \<open>(False, None, message)\<close> with the MIME type in the message.
\<close>

theorem C7_mime_step:
  assumes "passes_basic_checks max_size env t" and "passes_security env"
  shows "(fst (FileValidator_validate_file max_size env) =
            (\<not> HAS_MAGIC env \<or> magic_from_file env = None
             \<or> (\<exists>m. magic_from_file env = Some m \<and> m \<in> set (mime_types_of t))))
         \<and> (\<forall>m. HAS_MAGIC env \<and> magic_from_file env = Some m \<and> m \<notin> set (mime_types_of t) \<longrightarrow>
               FileValidator_validate_file max_size env =
                 (False, None, Some (msg_mime_mismatch @ m)))
         \<and> (\<not> HAS_MAGIC env \<or> magic_from_file env = None
               \<or> (\<exists>m. magic_from_file env = Some m \<and> m \<in> set (mime_types_of t)) \<longrightarrow>
               FileValidator_validate_file max_size env = (True, Some t, None))"
proof -
  have v: "FileValidator_validate_file max_size env =
           (case mime_step env t of Some rejected \<Rightarrow> rejected | None \<Rightarrow> (True, Some t, None))"
    using validate_file_after_basic [OF assms(1)] security_step_passes [OF assms(2)]
    by (simp split: option.splits)
  show ?thesis
    unfolding v
    by (cases "magic_from_file env")
      (auto simp: mime_step_def FileValidator_validate_mime_type_def)
qed

lemma sample_xlsx_checks:
  "passes_basic_checks None sample_xlsx (ascii ''excel'')" "passes_security sample_xlsx"
  "passes_basic_checks None (sample_xlsx\<lparr>HAS_MAGIC := False\<rparr>) (ascii ''excel'')"
  "passes_security (sample_xlsx\<lparr>HAS_MAGIC := False\<rparr>)"
  by (simp_all add: sample_xlsx_def sniffer_defs)

theorem C7_mime_step_witness:
  "FileValidator_validate_file None sample_xlsx =
     (False, None, Some (msg_mime_mismatch @ ascii ''application/zip''))
   \<and> FileValidator_validate_file None (sample_xlsx\<lparr>HAS_MAGIC := False\<rparr>) =
     (True, Some (ascii ''excel''), None)"
proof -
  have m: "HAS_MAGIC sample_xlsx"
    "magic_from_file sample_xlsx = Some (ascii ''application/zip'')"
    "ascii ''application/zip'' \<notin> set (mime_types_of (ascii ''excel''))"
    "\<not> HAS_MAGIC (sample_xlsx\<lparr>HAS_MAGIC := False\<rparr>)"
    by (simp_all add: sample_xlsx_def SUPPORTED_TYPES_def ascii_def)
  show ?thesis
    using C7_mime_step [OF sample_xlsx_checks(1) sample_xlsx_checks(2)]
      C7_mime_step [OF sample_xlsx_checks(3) sample_xlsx_checks(4)] m
    by blast
qed

text \<open>
  The claim as it is written fails on the sample upload: the file passes the existence,
  size, extension and magic-number checks and the security check, its MIME type alone is
  off the list, and \<open>validate_file\<close> rejects it.
\<close>

theorem C7_counterexample:
  "passes_basic_checks None sample_xlsx (ascii ''excel'')
   \<and> passes_security sample_xlsx
   \<and> FileValidator_validate_file None sample_xlsx =
       (False, None, Some (msg_mime_mismatch @ ascii ''application/zip''))"
  by (simp add: sample_xlsx_def sniffer_defs)

subsection \<open>The rows of the tabular extractor\<close>








lemma scan_header_numeral:
  "scan_header fr ws r (numeral k) =
     (if ExcelParser_is_header_row fr (iter_row ws r)
      then ExcelParser_map_columns fr (iter_row ws r) r
      else scan_header fr ws (Suc r) (pred_numeral k))"
  by (simp add: numeral_eq_Suc)

lemma cells_from_numeral:
  "cells_from ws r c (numeral k) = cell_value ws r c # cells_from ws r (Suc c) (pred_numeral k)"
  by (simp add: numeral_eq_Suc)

lemma extract_rows_numeral:
  "extract_rows fr ws mapping r (numeral k) =
     (case ExcelParser_extract_row fr ws mapping r of
        Inl e \<Rightarrow> Inl e
      | Inr row_data \<Rightarrow>
          (case extract_rows fr ws mapping (Suc r) (pred_numeral k) of
             Inl e \<Rightarrow> Inl e
           | Inr data \<Rightarrow>
               Inr (if row_data \<noteq> [] \<and> any_truthy (map snd row_data)
                    then row_data # data else data)))"
  by (simp add: numeral_eq_Suc)

lemmas excel_defs = ExcelParser_parse_file_def ExcelParser_extract_data_def
  ExcelParser_identify_columns_def ExcelParser_is_header_row_def ExcelParser_map_columns_def
  ExcelParser_extract_row_def header_row_of_def max_row_def max_column_def iter_row_def
  cell_value_def COLUMN_KEYWORDS_def parse_cell_def ExcelParser_parse_text_def lower_cp_def
  strip_def is_space_def scan_header_numeral cells_from_numeral extract_rows_numeral
  clean_number_def non_numeric_def






text \<open>
  The row that makes the plan converter raise (claim C10) is one the tabular extractor
  returns and the validator accepts: the upload of \<open>sample_typed_sheet\<close> is parsed and
  validated without an error, and the conversion of its rows raises.
\<close>

lemma typed_sheet_pipeline:
  "ExcelParser_parse_file fr sample_typed_sheet =
     Inr [[(ascii ''type'', PNone), (ascii ''name'', PStr [40481, 33016, 32905]),
           (ascii ''date'', PStr (ascii ''2024-01-01''))]]"
  "DataValidator_validate_parsed_data fr
     [[(ascii ''type'', PNone), (ascii ''name'', PStr [40481, 33016, 32905]),
       (ascii ''date'', PStr (ascii ''2024-01-01''))]] (ascii ''general'') =
     Inr \<lparr>errors = [], warnings = [msg_summary_prefix @ ascii ''1'' @ msg_summary_suffix]\<rparr>"
  "convert_to_plan_items
     [[(ascii ''type'', PNone), (ascii ''name'', PStr [40481, 33016, 32905]),
       (ascii ''date'', PStr (ascii ''2024-01-01''))]] = Inl AttributeError"
proof -
  show "ExcelParser_parse_file fr sample_typed_sheet =
     Inr [[(ascii ''type'', PNone), (ascii ''name'', PStr [40481, 33016, 32905]),
           (ascii ''date'', PStr (ascii ''2024-01-01''))]]"
    by (simp add: sample_typed_sheet_def excel_defs date_defs)
  show "DataValidator_validate_parsed_data fr
     [[(ascii ''type'', PNone), (ascii ''name'', PStr [40481, 33016, 32905]),
       (ascii ''date'', PStr (ascii ''2024-01-01''))]] (ascii ''general'') =
     Inr \<lparr>errors = [], warnings = [msg_summary_prefix @ ascii ''1'' @ msg_summary_suffix]\<rparr>"
    by (simp add: validate_defs strptime_defs dec.simps)
  show "convert_to_plan_items
     [[(ascii ''type'', PNone), (ascii ''name'', PStr [40481, 33016, 32905]),
       (ascii ''date'', PStr (ascii ''2024-01-01''))]] = Inl AttributeError"
    by (simp add: convert_to_plan_items_def convert_row_def dict_get_default_def ascii_def)
qed

end
